theory Spec2Isabelle
  imports Complex_Main "HOL-Library.AList"
begin

section \<open>Compatibility corrections of pymatgen/entries/compatibility.py\<close>

text \<open>
  The module is Python 2 (\<^verbatim>\<open>from __future__ import division\<close>, \<^verbatim>\<open>__metaclass__\<close>,
  a \<^verbatim>\<open>filter(None, map(...))\<close> that returns a list). Energies are Python floats; they are
  modelled as real numbers, so \<open>+\<close>, \<open>-\<close>, \<open>*\<close> and \<open>/\<close> are exact: rounding, infinities
  and NaN are outside the model. Every exception the module can raise is a value of
  \<open>error\<close>, and a function that may raise returns \<open>error + 'a\<close>.
\<close>

subsection \<open>Errors\<close>

datatype error = CompatibilityError | ValueError | KeyError | IndexError

subsection \<open>The external data types, by the attributes the module reads\<close>

text \<open>
  A \<^verbatim>\<open>Composition\<close> is read through \<^verbatim>\<open>comp[el]\<close>, \<^verbatim>\<open>el in comp\<close>, \<^verbatim>\<open>len(comp)\<close>,
  \<^verbatim>\<open>comp.elements\<close>, \<^verbatim>\<open>comp.reduced_formula\<close> and \<^verbatim>\<open>comp.num_atoms\<close>. Elements are
  represented by their symbols. The element table is an association list in the
  iteration order of \<^verbatim>\<open>comp.elements\<close>.
\<close>

record composition =
  amounts :: "(string \<times> real) list"
  reduced_formula :: string
  num_atoms :: real

definition elements :: "composition \<Rightarrow> string list" where
  "elements cmp = map fst (amounts cmp)"

text \<open>\<^verbatim>\<open>comp[el]\<close>: the amount, 0 for an element that is absent.\<close>

definition amt :: "composition \<Rightarrow> string \<Rightarrow> real" where
  "amt cmp el = (case map_of (amounts cmp) el of None \<Rightarrow> 0 | Some v \<Rightarrow> v)"

text \<open>\<^verbatim>\<open>el in comp\<close>.\<close>

definition has_el :: "composition \<Rightarrow> string \<Rightarrow> bool" where
  "has_el cmp el = (map_of (amounts cmp) el \<noteq> None)"

text \<open>
  \<^verbatim>\<open>entry.parameters\<close> is a dict; the module reads the keys \<^verbatim>\<open>"run_type"\<close>,
  \<^verbatim>\<open>"hubbards"\<close> and \<^verbatim>\<open>"potcar_symbols"\<close>. Each is a field that is \<open>None\<close> when
  the key is absent (for \<^verbatim>\<open>"hubbards"\<close> also when the stored value is \<^verbatim>\<open>None\<close>: the
  code treats both alike).
\<close>

record parameters =
  run_type :: "string option"
  hubbards :: "(string \<rightharpoonup> real) option"
  potcar_symbols :: "string list option"

text \<open>
  An entry. \<open>entry_structure\<close> is the attribute \<^verbatim>\<open>structure\<close>, which only a
  \<^verbatim>\<open>ComputedStructureEntry\<close> has (\<^verbatim>\<open>hasattr(entry, "structure")\<close>); its type is a
  parameter. \<open>data\<close> is \<^verbatim>\<open>entry.data\<close>.
\<close>

record 's entry =
  composition :: composition
  uncorrected_energy :: real
  correction :: real
  parameters :: parameters
  data :: "string \<rightharpoonup> string"
  entry_structure :: "'s option"

text \<open>The input set: \<^verbatim>\<open>potcar_settings\<close>, \<^verbatim>\<open>incar_settings["LDAUU"]\<close> and \<^verbatim>\<open>name\<close>.\<close>

record input_set =
  potcar_settings :: "(string \<times> string) list"
  LDAUU :: "string \<rightharpoonup> (string \<rightharpoonup> real)"
  input_set_name :: string

text \<open>The parsed YAML configuration, by the keys the constructors read.\<close>

record config =
  Name :: string
  CompoundEnergies :: "string \<rightharpoonup> real"
  UCorrections :: "string \<rightharpoonup> (string \<rightharpoonup> real)"
  OxideCorrections :: "string \<rightharpoonup> real"
  AqueousCompoundEnergies :: "string \<rightharpoonup> real"

subsection \<open>PotcarCorrection\<close>

record PotcarCorrection =
  valid_potcars :: "string set"
  potcar_input_set :: input_set

definition PotcarCorrection_init :: "input_set \<Rightarrow> PotcarCorrection" where
  "PotcarCorrection_init iset =
     \<lparr>valid_potcars = set (map snd (potcar_settings iset)), potcar_input_set = iset\<rparr>"

text \<open>\<^verbatim>\<open>s.split(sep)\<close> with a one-character separator: every occurrence splits.\<close>

fun split_on :: "char \<Rightarrow> string \<Rightarrow> string list" where
  "split_on sep [] = [[]]"
| "split_on sep (x # xs) =
     (if x = sep then [] # split_on sep xs
      else (case split_on sep xs of
              [] \<Rightarrow> [[x]]
            | w # ws \<Rightarrow> (x # w) # ws))"

text \<open>
  The list comprehension \<^verbatim>\<open>[sym.split(" ")[1] for sym in ...]\<close>: the index \<^verbatim>\<open>[1]\<close>
  raises IndexError on a symbol with a single token, at the first such symbol.
\<close>

fun second_tokens :: "string list \<Rightarrow> error + string list" where
  "second_tokens [] = Inr []"
| "second_tokens (sy # syms) =
     (case split_on (CHR '' '') sy of
        _ # t # _ \<Rightarrow> (case second_tokens syms of
                        Inl err \<Rightarrow> Inl err
                      | Inr ts \<Rightarrow> Inr (t # ts))
      | _ \<Rightarrow> Inl IndexError)"

text \<open>
  \<^verbatim>\<open>PotcarCorrection.get_correction\<close>. Only the KeyError of the missing key is caught and
  turned into ValueError; the IndexError of the comprehension is not.
\<close>

definition PotcarCorrection_get_correction :: "PotcarCorrection \<Rightarrow> 's entry \<Rightarrow> error + real" where
  "PotcarCorrection_get_correction pc e =
     (case potcar_symbols (parameters e) of
        None \<Rightarrow> Inl ValueError
      | Some syms \<Rightarrow>
          (case second_tokens syms of
             Inl err \<Rightarrow> Inl err
           | Inr psp_settings \<Rightarrow>
               if \<not> set psp_settings \<subseteq> valid_potcars pc then Inl CompatibilityError
               else Inr 0))"

definition PotcarCorrection_str :: "PotcarCorrection \<Rightarrow> string" where
  "PotcarCorrection_str pc = input_set_name (potcar_input_set pc) @ '' Potcar Correction''"

subsection \<open>GasCorrection\<close>

record GasCorrection =
  cpd_energies :: "string \<rightharpoonup> real"
  oxide_correction :: "string \<rightharpoonup> real"
  gas_name :: string
  correct_peroxide :: bool

definition GasCorrection_init :: "config \<Rightarrow> bool \<Rightarrow> GasCorrection" where
  "GasCorrection_init c cp =
     \<lparr>cpd_energies = CompoundEnergies c, oxide_correction = OxideCorrections c,
      gas_name = Name c, correct_peroxide = cp\<rparr>"

text \<open>The class attributes of \<^verbatim>\<open>UCorrection\<close> that \<^verbatim>\<open>GasCorrection\<close> reads.\<close>

definition common_peroxides :: "string list" where
  "common_peroxides = [''Li2O2'', ''Na2O2'', ''K2O2'', ''Cs2O2'', ''Rb2O2'', ''BeO2'',
                       ''MgO2'', ''CaO2'', ''SrO2'', ''BaO2'']"

definition common_superoxides :: "string list" where
  "common_superoxides = [''LiO2'', ''NaO2'', ''KO2'', ''RbO2'', ''CsO2'']"

definition ozonides :: "string list" where
  "ozonides = [''LiO3'', ''NaO3'', ''KO3'', ''NaO5'']"

text \<open>
  \<^verbatim>\<open>correction += table[key] * mult\<close>: the subscript raises KeyError on a key the
  table does not have.
\<close>

definition add_rate :: "(string \<rightharpoonup> real) \<Rightarrow> string \<Rightarrow> real \<Rightarrow> real \<Rightarrow> error + real" where
  "add_rate table key mult corr =
     (case table key of
        None \<Rightarrow> Inl KeyError
      | Some rate \<Rightarrow> Inr (corr + rate * mult))"

text \<open>
  \<^verbatim>\<open>GasCorrection.get_correction\<close>. The first argument is the imported function
  \<^verbatim>\<open>oxide_type(structure, 1.05, return_nbonds=True)\<close>, which returns the label and the
  number of bonds.
\<close>

definition GasCorrection_get_correction ::
  "('s \<Rightarrow> string \<times> real) \<Rightarrow> GasCorrection \<Rightarrow> 's entry \<Rightarrow> error + real" where
  "GasCorrection_get_correction oxide_type gc e =
     (let cmp = composition e; rform = reduced_formula cmp in
      case cpd_energies gc rform of
        Some en \<Rightarrow> Inr (en * num_atoms cmp - uncorrected_energy e)
      | None \<Rightarrow>
          if correct_peroxide gc then
            if length (amounts cmp) \<ge> 2 \<and> has_el cmp ''O'' then
              (case data e ''oxide_type'' of
                 Some ot \<Rightarrow>
                   (let corr = (case oxide_correction gc ot of
                                  Some ox_corr \<Rightarrow> 0 + ox_corr * amt cmp ''O''
                                | None \<Rightarrow> 0)
                    in if ot = ''hydroxide''
                       then add_rate (oxide_correction gc) ''oxide'' (amt cmp ''O'') corr
                       else Inr corr)
               | None \<Rightarrow>
                   (case entry_structure e of
                      Some st \<Rightarrow>
                        (case oxide_type st of
                           (ox_type, nbonds) \<Rightarrow>
                             (case oxide_correction gc ox_type of
                                Some rate \<Rightarrow> Inr (0 + rate * nbonds)
                              | None \<Rightarrow>
                                  if ox_type = ''hydroxide''
                                  then add_rate (oxide_correction gc) ''oxide'' (amt cmp ''O'') 0
                                  else Inr 0))
                    | None \<Rightarrow>
                        if rform \<in> set common_peroxides
                        then add_rate (oxide_correction gc) ''peroxide'' (amt cmp ''O'') 0
                        else if rform \<in> set common_superoxides
                        then add_rate (oxide_correction gc) ''superoxide'' (amt cmp ''O'') 0
                        else if rform \<in> set ozonides
                        then add_rate (oxide_correction gc) ''ozonide'' (amt cmp ''O'') 0
                        else if ''O'' \<in> set (elements cmp) \<and> length (elements cmp) > 1
                        then add_rate (oxide_correction gc) ''oxide'' (amt cmp ''O'') 0
                        else Inr 0))
            else Inr 0
          else add_rate (oxide_correction gc) ''oxide'' (amt cmp ''O'') 0)"

definition GasCorrection_str :: "GasCorrection \<Rightarrow> string" where
  "GasCorrection_str gc = gas_name gc @ '' Gas Correction''"

subsection \<open>AqueousCorrection\<close>

record AqueousCorrection =
  aq_cpd_energies :: "string \<rightharpoonup> real"
  aq_name :: string

definition AqueousCorrection_init :: "config \<Rightarrow> AqueousCorrection" where
  "AqueousCorrection_init c =
     \<lparr>aq_cpd_energies = AqueousCompoundEnergies c, aq_name = Name c\<rparr>"

text \<open>
  \<^verbatim>\<open>AqueousCorrection.get_correction\<close>. It reads \<^verbatim>\<open>entry.correction\<close>, the correction
  field of the entry as it is when the rule runs.
\<close>

definition AqueousCorrection_get_correction :: "AqueousCorrection \<Rightarrow> 's entry \<Rightarrow> real" where
  "AqueousCorrection_get_correction ac e =
     (let cmp = composition e; rform = reduced_formula cmp;
          corr = (case aq_cpd_energies ac rform of
                    Some en \<Rightarrow>
                      if rform \<in> set [''H2'', ''H2O'']
                      then en * num_atoms cmp - uncorrected_energy e - correction e
                      else 0 + en * num_atoms cmp
                  | None \<Rightarrow> 0)
      in if \<not> rform = ''H2O''
         then corr + 0.5 * 2.46 * min (amt cmp ''H'' / 2.0) (amt cmp ''O'')
         else corr)"

definition AqueousCorrection_str :: "AqueousCorrection \<Rightarrow> string" where
  "AqueousCorrection_str ac = aq_name ac @ '' Aqueous Correction''"

subsection \<open>UCorrection\<close>

record UCorrection =
  u_settings :: "string \<rightharpoonup> (string \<rightharpoonup> real)"
  u_corrections :: "string \<rightharpoonup> (string \<rightharpoonup> real)"
  u_name :: string
  compat_type :: string

text \<open>\<^verbatim>\<open>UCorrection.__init__\<close>: any mode but "GGA" and "Advanced" is refused.\<close>

definition UCorrection_init :: "config \<Rightarrow> input_set \<Rightarrow> string \<Rightarrow> error + UCorrection" where
  "UCorrection_init c iset ct =
     (if ct \<notin> set [''GGA'', ''Advanced''] then Inl CompatibilityError
      else if ct = ''Advanced''
      then Inr \<lparr>u_settings = LDAUU iset, u_corrections = UCorrections c,
                u_name = Name c, compat_type = ct\<rparr>
      else Inr \<lparr>u_settings = Map.empty, u_corrections = Map.empty,
                u_name = Name c, compat_type = ct\<rparr>)"

text \<open>\<^verbatim>\<open>d.get(key, 0)\<close> on a dict of numbers.\<close>

definition get0 :: "(string \<rightharpoonup> real) \<Rightarrow> string \<Rightarrow> real" where
  "get0 d key = (case d key of None \<Rightarrow> 0 | Some v \<Rightarrow> v)"

text \<open>\<^verbatim>\<open>d.get(key, {})\<close> on a dict of dicts.\<close>

definition get_dict :: "(string \<rightharpoonup> (string \<rightharpoonup> real)) \<Rightarrow> string \<Rightarrow> (string \<rightharpoonup> real)" where
  "get_dict d key = (case d key of None \<Rightarrow> Map.empty | Some m \<Rightarrow> m)"

text \<open>
  The loop \<^verbatim>\<open>for el in comp.elements\<close> of \<^verbatim>\<open>UCorrection.get_correction\<close>: the first
  element whose declared U differs from the expected one raises.
\<close>

fun u_loop ::
  "(string \<rightharpoonup> real) \<Rightarrow> (string \<rightharpoonup> real) \<Rightarrow> (string \<rightharpoonup> real) \<Rightarrow> composition \<Rightarrow>
   string list \<Rightarrow> real \<Rightarrow> error + real" where
  "u_loop calc_u usettings ucorr cmp [] corr = Inr corr"
| "u_loop calc_u usettings ucorr cmp (el # els) corr =
     (if get0 calc_u el \<noteq> get0 usettings el then Inl CompatibilityError
      else u_loop calc_u usettings ucorr cmp els
             (case ucorr el of
                Some rate \<Rightarrow> corr + rate * amt cmp el
              | None \<Rightarrow> corr))"

text \<open>
  \<^verbatim>\<open>UCorrection.get_correction\<close>. The first argument is the electronegativity \<^verbatim>\<open>el.X\<close>
  of the periodic table. \<^verbatim>\<open>sorted\<close> is stable, as \<open>sort_key\<close> is; \<^verbatim>\<open>elements[-1]\<close>
  raises IndexError when no element has a positive amount.
\<close>

definition UCorrection_get_correction ::
  "(string \<Rightarrow> real) \<Rightarrow> UCorrection \<Rightarrow> 's entry \<Rightarrow> error + real" where
  "UCorrection_get_correction X uc e =
     (if (case run_type (parameters e) of None \<Rightarrow> ''GGA'' | Some rt \<Rightarrow> rt) = ''HF''
      then Inl CompatibilityError
      else
        let calc_u = (case hubbards (parameters e) of None \<Rightarrow> Map.empty | Some h \<Rightarrow> h);
            cmp = composition e;
            els = sort_key X (filter (\<lambda>el. amt cmp el > 0) (elements cmp))
        in if els = [] then Inl IndexError
           else
             let most_electroneg = last els;
                 ucorr = get_dict (u_corrections uc) most_electroneg;
                 usettings = get_dict (u_settings uc) most_electroneg
             in u_loop calc_u usettings ucorr cmp (elements cmp) 0)"

definition UCorrection_str :: "UCorrection \<Rightarrow> string" where
  "UCorrection_str uc = u_name uc @ '' '' @ compat_type uc @ '' Correction''"

subsection \<open>Compatibility\<close>

text \<open>The concrete subclasses of \<^verbatim>\<open>Correction\<close> of the module.\<close>

datatype Correction =
    Potcar PotcarCorrection
  | Gas GasCorrection
  | Aqueous AqueousCorrection
  | U UCorrection

text \<open>\<^verbatim>\<open>c.get_correction(entry)\<close> and \<^verbatim>\<open>str(c)\<close>, by the class of \<open>c\<close>.\<close>

fun get_correction ::
  "(string \<Rightarrow> real) \<Rightarrow> ('s \<Rightarrow> string \<times> real) \<Rightarrow> Correction \<Rightarrow> 's entry \<Rightarrow> error + real" where
  "get_correction X oxide_type (Potcar pc) e = PotcarCorrection_get_correction pc e"
| "get_correction X oxide_type (Gas gc) e = GasCorrection_get_correction oxide_type gc e"
| "get_correction X oxide_type (Aqueous ac) e = Inr (AqueousCorrection_get_correction ac e)"
| "get_correction X oxide_type (U uc) e = UCorrection_get_correction X uc e"

fun str :: "Correction \<Rightarrow> string" where
  "str (Potcar pc) = PotcarCorrection_str pc"
| "str (Gas gc) = GasCorrection_str gc"
| "str (Aqueous ac) = AqueousCorrection_str ac"
| "str (U uc) = UCorrection_str uc"

text \<open>
  Entries are objects that the aggregator mutates in place: a store maps the address of
  an entry to its fields, and a call takes the store and returns it. A call of
  \<^verbatim>\<open>get_correction\<close> reads the entry at its address; no \<^verbatim>\<open>get_correction\<close> of the
  module assigns to a field.
\<close>

type_synonym 's store = "nat \<Rightarrow> 's entry"

definition get_correction_call ::
  "(string \<Rightarrow> real) \<Rightarrow> ('s \<Rightarrow> string \<times> real) \<Rightarrow> Correction \<Rightarrow> 's store \<Rightarrow> nat \<Rightarrow>
   (error + real) \<times> 's store" where
  "get_correction_call X oxide_type c s a = (get_correction X oxide_type c (s a), s)"

record Compatibility =
  corrections :: "Correction list"

text \<open>
  The loop of \<^verbatim>\<open>get_corrections_dict\<close>. The dict \<^verbatim>\<open>corrections\<close> is an association
  list with one pair for each key; \<^verbatim>\<open>corrections[str(c)] = val\<close> replaces the value of
  a key that is already there.
\<close>

fun corrections_loop ::
  "(string \<Rightarrow> real) \<Rightarrow> ('s \<Rightarrow> string \<times> real) \<Rightarrow> Correction list \<Rightarrow> 's store \<Rightarrow> nat \<Rightarrow>
   (string \<times> real) list \<Rightarrow> (error + (string \<times> real) list) \<times> 's store" where
  "corrections_loop X oxide_type [] s a dict = (Inr dict, s)"
| "corrections_loop X oxide_type (c # cs) s a dict =
     (case get_correction_call X oxide_type c s a of
        (Inl err, s') \<Rightarrow> (Inl err, s')
      | (Inr val, s') \<Rightarrow>
          corrections_loop X oxide_type cs s' a
            (if val \<noteq> 0 then AList.update (str c) val dict else dict))"

definition get_corrections_dict ::
  "(string \<Rightarrow> real) \<Rightarrow> ('s \<Rightarrow> string \<times> real) \<Rightarrow> Compatibility \<Rightarrow> 's store \<Rightarrow> nat \<Rightarrow>
   (error + (string \<times> real) list) \<times> 's store" where
  "get_corrections_dict X oxide_type self s a =
     corrections_loop X oxide_type (corrections self) s a []"

text \<open>
  \<^verbatim>\<open>process_entry\<close>: None for an incompatible entry, the entry (its address) otherwise;
  any other exception propagates.
\<close>

definition process_entry ::
  "(string \<Rightarrow> real) \<Rightarrow> ('s \<Rightarrow> string \<times> real) \<Rightarrow> Compatibility \<Rightarrow> 's store \<Rightarrow> nat \<Rightarrow>
   (error + nat option) \<times> 's store" where
  "process_entry X oxide_type self s a =
     (case get_corrections_dict X oxide_type self s a of
        (Inl CompatibilityError, s') \<Rightarrow> (Inr None, s')
      | (Inl err, s') \<Rightarrow> (Inl err, s')
      | (Inr dict, s') \<Rightarrow>
          (Inr (Some a), s'(a := (s' a)\<lparr>correction := sum_list (map snd dict)\<rparr>)))"

text \<open>
  \<^verbatim>\<open>map(self.process_entry, entries)\<close> of Python 2: the calls are made in order and the
  first exception ends the run.
\<close>

fun map_process_entry ::
  "(string \<Rightarrow> real) \<Rightarrow> ('s \<Rightarrow> string \<times> real) \<Rightarrow> Compatibility \<Rightarrow> 's store \<Rightarrow> nat list \<Rightarrow>
   (error + nat option list) \<times> 's store" where
  "map_process_entry X oxide_type self s [] = (Inr [], s)"
| "map_process_entry X oxide_type self s (a # as) =
     (case process_entry X oxide_type self s a of
        (Inl err, s') \<Rightarrow> (Inl err, s')
      | (Inr r, s') \<Rightarrow>
          (case map_process_entry X oxide_type self s' as of
             (Inl err, s'') \<Rightarrow> (Inl err, s'')
           | (Inr rs, s'') \<Rightarrow> (Inr (r # rs), s'')))"

text \<open>
  \<^verbatim>\<open>filter(None, results)\<close> keeps the results that are true: an entry object is, None
  is not.
\<close>

fun filter_None :: "'a option list \<Rightarrow> 'a list" where
  "filter_None [] = []"
| "filter_None (None # rs) = filter_None rs"
| "filter_None (Some r # rs) = r # filter_None rs"

definition process_entries ::
  "(string \<Rightarrow> real) \<Rightarrow> ('s \<Rightarrow> string \<times> real) \<Rightarrow> Compatibility \<Rightarrow> 's store \<Rightarrow> nat list \<Rightarrow>
   (error + nat list) \<times> 's store" where
  "process_entries X oxide_type self s entries =
     (case map_process_entry X oxide_type self s entries of
        (Inl err, s') \<Rightarrow> (Inl err, s')
      | (Inr rs, s') \<Rightarrow> (Inr (filter_None rs), s'))"

subsection \<open>Notions of the specification\<close>

text \<open>
  The pseudopotential identifier that a recorded symbol such as
  \<^verbatim>\<open>'PAW_PBE Fe_pv 06Sep2000'\<close> carries: its second space-separated token. It is
  meaningful for a symbol that contains a space.
\<close>

definition psp_setting :: "string \<Rightarrow> string" where
  "psp_setting sy = split_on (CHR '' '') sy ! 1"

text \<open>
  The U value that an entry declares for an element: the value under \<^verbatim>\<open>"hubbards"\<close>,
  0 for an element without one and for an entry without \<^verbatim>\<open>"hubbards"\<close>.
\<close>

definition declared_u :: "'s entry \<Rightarrow> string \<Rightarrow> real" where
  "declared_u e el =
     (case hubbards (parameters e) of
        None \<Rightarrow> 0
      | Some h \<Rightarrow> (case h el of None \<Rightarrow> 0 | Some u \<Rightarrow> u))"

text \<open>
  The reference part of the aqueous correction, in the words of the specification: for a
  composition that matches a known aqueous reference compound, reference energy times
  atom count minus uncorrected energy minus existing correction when the compound is
  elemental hydrogen or water, and reference energy times atom count otherwise; nothing
  for a composition that matches none.
\<close>

definition aqueous_reference_term :: "AqueousCorrection \<Rightarrow> 's entry \<Rightarrow> real" where
  "aqueous_reference_term ac e =
     (case aq_cpd_energies ac (reduced_formula (composition e)) of
        None \<Rightarrow> 0
      | Some reference_energy \<Rightarrow>
          if reduced_formula (composition e) = ''H2'' \<or> reduced_formula (composition e) = ''H2O''
          then reference_energy * num_atoms (composition e) - uncorrected_energy e - correction e
          else reference_energy * num_atoms (composition e))"

text \<open>
  The value of one rule on an entry (0 when the rule raises), for the sum of the per-rule
  values.
\<close>

definition rule_value ::
  "(string \<Rightarrow> real) \<Rightarrow> ('s \<Rightarrow> string \<times> real) \<Rightarrow> 's entry \<Rightarrow> Correction \<Rightarrow> real" where
  "rule_value X oxide_type e c =
     (case get_correction X oxide_type c e of Inl err \<Rightarrow> 0 | Inr val \<Rightarrow> val)"

text \<open>
  The loop of \<^verbatim>\<open>get_corrections_dict\<close> as a function of the fields of the entry; the
  proofs relate \<open>corrections_loop\<close> to it.
\<close>

fun dict_loop ::
  "(string \<Rightarrow> real) \<Rightarrow> ('s \<Rightarrow> string \<times> real) \<Rightarrow> Correction list \<Rightarrow> 's entry \<Rightarrow>
   (string \<times> real) list \<Rightarrow> error + (string \<times> real) list" where
  "dict_loop X oxide_type [] e dict = Inr dict"
| "dict_loop X oxide_type (c # cs) e dict =
     (case get_correction X oxide_type c e of
        Inl err \<Rightarrow> Inl err
      | Inr val \<Rightarrow>
          dict_loop X oxide_type cs e
            (if val \<noteq> 0 then AList.update (str c) val dict else dict))"

subsection \<open>Example inputs\<close>

definition mk_entry ::
  "composition \<Rightarrow> real \<Rightarrow> real \<Rightarrow> parameters \<Rightarrow> (string \<rightharpoonup> string) \<Rightarrow> unit entry" where
  "mk_entry cmp en corr ps d =
     \<lparr>composition = cmp, uncorrected_energy = en, correction = corr, parameters = ps,
      data = d, entry_structure = None\<rparr>"

definition no_parameters :: parameters where
  "no_parameters = \<lparr>run_type = None, hubbards = None, potcar_symbols = None\<rparr>"

definition no_structure :: "unit \<Rightarrow> string \<times> real" where
  "no_structure st = (''None'', 0)"

definition Fe2O3 :: composition where
  "Fe2O3 = \<lparr>amounts = [(''Fe'', 2), (''O'', 3)], reduced_formula = ''Fe2O3'', num_atoms = 5\<rparr>"

definition NaOH :: composition where
  "NaOH = \<lparr>amounts = [(''Na'', 1), (''O'', 1), (''H'', 1)], reduced_formula = ''NaOH'',
           num_atoms = 3\<rparr>"

definition Fe :: composition where
  "Fe = \<lparr>amounts = [(''Fe'', 1)], reduced_formula = ''Fe'', num_atoms = 1\<rparr>"

definition potcar_no_space :: "unit entry" where
  "potcar_no_space =
     mk_entry Fe2O3 (- 10) 0
       \<lparr>run_type = None, hubbards = None, potcar_symbols = Some [''Fe_pv'']\<rparr> Map.empty"

definition potcar_good :: "unit entry" where
  "potcar_good =
     mk_entry Fe2O3 (- 10) 0
       \<lparr>run_type = None, hubbards = None,
        potcar_symbols = Some [''PAW_PBE Fe_pv 06Sep2000'', ''PAW_PBE O 08Apr2002'']\<rparr>
       Map.empty"

definition potcar_Fe :: PotcarCorrection where
  "potcar_Fe =
     PotcarCorrection_init
       \<lparr>potcar_settings = [(''Fe'', ''Fe_pv''), (''O'', ''O'')], LDAUU = Map.empty,
        input_set_name = ''MP''\<rparr>"

definition hydroxide_entry :: "unit entry" where
  "hydroxide_entry = mk_entry NaOH (- 12) 0 no_parameters [''oxide_type'' \<mapsto> ''hydroxide'']"

definition iron_entry :: "unit entry" where
  "iron_entry = mk_entry Fe (- 8) 0 no_parameters Map.empty"

definition gas_of :: "(string \<rightharpoonup> real) \<Rightarrow> bool \<Rightarrow> GasCorrection" where
  "gas_of table cp =
     \<lparr>cpd_energies = Map.empty, oxide_correction = table, gas_name = ''MP'',
      correct_peroxide = cp\<rparr>"

definition H2O :: composition where
  "H2O = \<lparr>amounts = [(''H'', 2), (''O'', 1)], reduced_formula = ''H2O'', num_atoms = 3\<rparr>"

definition Li2O2 :: composition where
  "Li2O2 = \<lparr>amounts = [(''Li'', 2), (''O'', 2)], reduced_formula = ''Li2O2'', num_atoms = 4\<rparr>"

definition water :: "unit entry" where
  "water = mk_entry H2O (- 14) 0 no_parameters Map.empty"

definition lithium_peroxide :: "unit entry" where
  "lithium_peroxide = mk_entry Li2O2 (- 20) 0 no_parameters Map.empty"

definition Fe2O3_GGA :: "unit entry" where
  "Fe2O3_GGA = mk_entry Fe2O3 (- 10) 0 no_parameters Map.empty"

definition Fe2O3_plus_U :: "unit entry" where
  "Fe2O3_plus_U =
     mk_entry Fe2O3 (- 10) 0
       \<lparr>run_type = Some ''GGA'', hubbards = Some [''Fe'' \<mapsto> 5.3], potcar_symbols = None\<rparr>
       Map.empty"

definition Fe2O3_HF :: "unit entry" where
  "Fe2O3_HF =
     mk_entry Fe2O3 (- 10) 0
       \<lparr>run_type = Some ''HF'', hubbards = None, potcar_symbols = None\<rparr> Map.empty"

definition empty_entry :: "unit entry" where
  "empty_entry =
     mk_entry \<lparr>amounts = [], reduced_formula = [], num_atoms = 0\<rparr> 0 0 no_parameters Map.empty"

definition X_table :: "string \<Rightarrow> real" where
  "X_table el =
     (if el = ''O'' then 3.44 else if el = ''Fe'' then 1.83 else if el = ''H'' then 2.2 else 1)"

definition oxide_rates :: "string \<rightharpoonup> real" where
  "oxide_rates = [''oxide'' \<mapsto> - 0.7, ''peroxide'' \<mapsto> - 0.5]"

definition config_MP :: config where
  "config_MP =
     \<lparr>Name = ''MP'', CompoundEnergies = Map.empty,
      UCorrections = [''O'' \<mapsto> [''Fe'' \<mapsto> - 2.7]],
      OxideCorrections = oxide_rates,
      AqueousCompoundEnergies = [''H2'' \<mapsto> - 3, ''H2O'' \<mapsto> - 5]\<rparr>"

definition input_set_MP :: input_set where
  "input_set_MP =
     \<lparr>potcar_settings = [(''Fe'', ''Fe_pv''), (''O'', ''O'')],
      LDAUU = [''O'' \<mapsto> [''Fe'' \<mapsto> 5.3]], input_set_name = ''MP''\<rparr>"

definition UCorrection_GGA :: UCorrection where
  "UCorrection_GGA =
     \<lparr>u_settings = Map.empty, u_corrections = Map.empty, u_name = ''MP'',
      compat_type = ''GGA''\<rparr>"

definition aqueous_MP :: AqueousCorrection where
  "aqueous_MP = AqueousCorrection_init config_MP"

definition gas_aqueous :: Compatibility where
  "gas_aqueous = \<lparr>corrections = [Gas (gas_of oxide_rates True), Aqueous aqueous_MP]\<rparr>"

definition gas_twice :: Compatibility where
  "gas_twice =
     \<lparr>corrections = [Gas (gas_of oxide_rates True), Gas (gas_of oxide_rates False)]\<rparr>"

definition gas_u_aqueous :: Compatibility where
  "gas_u_aqueous =
     \<lparr>corrections = [Gas (gas_of oxide_rates True), U UCorrection_GGA, Aqueous aqueous_MP]\<rparr>"

text \<open>A store with three entries, at the addresses 0, 1 and 2.\<close>

definition three_entries :: "unit store" where
  "three_entries a = (if a = 0 then water else if a = 1 then Fe2O3_HF else lithium_peroxide)"

section \<open>Properties\<close>

subsection \<open>Auxiliary facts\<close>

lemma split_on_nonempty: "split_on sep s \<noteq> []"
  by (induction s) (auto split: list.splits)

lemma split_on_no_sep: "sep \<notin> set s \<Longrightarrow> split_on sep s = [s]"
  by (induction s) (auto split: list.splits)

lemma split_on_sep: "sep \<in> set s \<Longrightarrow> \<exists>a b rest. split_on sep s = a # b # rest"
proof (induction s)
  case Nil
  then show ?case by simp
next
  case (Cons x xs)
  show ?case
  proof (cases "x = sep")
    case True
    obtain w ws where "split_on sep xs = w # ws"
      using split_on_nonempty [of sep xs] by (cases "split_on sep xs") auto
    with True show ?thesis by simp
  next
    case False
    with Cons.prems have "sep \<in> set xs" by auto
    then obtain a b rest where "split_on sep xs = a # b # rest"
      using Cons.IH by blast
    with False show ?thesis by simp
  qed
qed

lemma second_tokens_no_space:
  "sy \<in> set syms \<Longrightarrow> CHR '' '' \<notin> set sy \<Longrightarrow> second_tokens syms = Inl IndexError"
proof (induction syms)
  case Nil
  then show ?case by simp
next
  case (Cons x xs)
  show ?case
  proof (cases "sy = x")
    case True
    with Cons.prems show ?thesis by (simp add: split_on_no_sep)
  next
    case False
    with Cons.prems Cons.IH have "second_tokens xs = Inl IndexError" by simp
    then show ?thesis by (simp split: list.splits)
  qed
qed

lemma second_tokens_spaces:
  "\<forall>sy \<in> set syms. CHR '' '' \<in> set sy \<Longrightarrow> second_tokens syms = Inr (map psp_setting syms)"
proof (induction syms)
  case Nil
  then show ?case by simp
next
  case (Cons x xs)
  then have "CHR '' '' \<in> set x" by simp
  then obtain a b rest where "split_on (CHR '' '') x = a # b # rest"
    using split_on_sep by blast
  with Cons show ?case by (simp add: psp_setting_def)
qed

lemma has_el_elements: "has_el cmp el \<longleftrightarrow> el \<in> set (elements cmp)"
  by (simp add: has_el_def elements_def map_of_eq_None_iff)

lemma two_elements: "a \<in> set xs \<Longrightarrow> b \<in> set xs \<Longrightarrow> a \<noteq> b \<Longrightarrow> 2 \<le> length xs"
  by (cases xs; cases "tl xs") auto

lemma not_has_el_amt: "\<not> has_el cmp el \<Longrightarrow> amt cmp el = 0"
  by (simp add: has_el_def amt_def)

lemma u_loop_GGA:
  "u_loop calc_u Map.empty Map.empty cmp els corr =
     (if \<forall>el \<in> set els. get0 calc_u el = 0 then Inr corr else Inl CompatibilityError)"
  by (induction els arbitrary: corr) (auto simp: get0_def)

lemma sort_key_Nil_iff: "sort_key f xs = [] \<longleftrightarrow> xs = []"
  by (metis length_sort list.size(3) length_0_conv)

lemma corrections_loop_eq:
  "corrections_loop X ot cs s a d = (dict_loop X ot cs (s a) d, s)"
  by (induction cs arbitrary: d) (auto simp: get_correction_call_def split: sum.splits)

lemma process_entry_eq:
  "process_entry X ot self s a =
     (case dict_loop X ot (corrections self) (s a) [] of
        Inl err \<Rightarrow> (if err = CompatibilityError then (Inr None, s) else (Inl err, s))
      | Inr d \<Rightarrow> (Inr (Some a), s(a := (s a)\<lparr>correction := sum_list (map snd d)\<rparr>)))"
  by (simp add: process_entry_def get_corrections_dict_def corrections_loop_eq
      split: sum.splits error.splits)

lemma process_entry_other:
  "b \<noteq> a \<Longrightarrow> snd (process_entry X ot self s a) b = s b"
  by (simp add: process_entry_eq split: sum.splits)

lemma process_entry_frame:
  assumes "s a = t a"
  shows "fst (process_entry X ot self s a) = fst (process_entry X ot self t a)"
    and "snd (process_entry X ot self s a) a = snd (process_entry X ot self t a) a"
  using assms by (simp_all add: process_entry_eq split: sum.splits)

lemma process_entry_result:
  "fst (process_entry X ot self s a) = Inr r \<Longrightarrow> r = None \<or> r = Some a"
  by (auto simp: process_entry_eq split: sum.splits if_splits)

text \<open>An incompatible entry is rejected and the store is left as it was.\<close>

lemma process_entry_incompatible:
  assumes "fst (get_corrections_dict X oxide_type self s a) = Inl CompatibilityError"
  shows "process_entry X oxide_type self s a = (Inr None, s)"
  using assms by (simp add: process_entry_eq get_corrections_dict_def corrections_loop_eq)

lemma filter_None_map:
  "filter_None (map (\<lambda>a. if P a then Some a else None) xs) = filter P xs"
  by (induction xs) auto

lemma sum_update_fresh:
  "k \<notin> fst ` set al \<Longrightarrow>
     sum_list (map snd (AList.update k v al)) = sum_list (map snd al) + (v::real)"
  by (induction al) auto

lemma dict_loop_sum:
  assumes "distinct (map str cs)"
    and "\<forall>c \<in> set cs. str c \<notin> fst ` set d"
    and "dict_loop X ot cs e d = Inr d'"
  shows "sum_list (map snd d') = sum_list (map snd d) + sum_list (map (rule_value X ot e) cs)"
  using assms
proof (induction cs arbitrary: d)
  case Nil
  then show ?case by simp
next
  case (Cons c cs)
  from Cons.prems(3) obtain v where v: "get_correction X ot c e = Inr v"
    by (cases "get_correction X ot c e") auto
  let ?d1 = "if v \<noteq> 0 then AList.update (str c) v d else d"
  from Cons.prems(3) v have loop: "dict_loop X ot cs e ?d1 = Inr d'" by simp
  have sum1: "sum_list (map snd ?d1) = sum_list (map snd d) + v"
    using Cons.prems(2) by (simp add: sum_update_fresh)
  have keys: "fst ` set ?d1 \<subseteq> insert (str c) (fst ` set d)"
    by (auto simp: dom_update)
  have fresh: "\<forall>c' \<in> set cs. str c' \<notin> fst ` set ?d1"
  proof
    fix c' assume c': "c' \<in> set cs"
    with Cons.prems(1) have "str c' \<noteq> str c" by (auto simp: image_iff)
    moreover from c' Cons.prems(2) have "str c' \<notin> fst ` set d" by simp
    ultimately show "str c' \<notin> fst ` set ?d1" using keys by blast
  qed
  from Cons.prems(1) have "distinct (map str cs)" by simp
  from Cons.IH [OF this fresh loop] sum1 v show ?case
    by (simp add: rule_value_def)
qed

lemma dict_loop_returns:
  "\<forall>c \<in> set cs. \<exists>val. get_correction X ot c e = Inr val \<Longrightarrow> \<exists>d'. dict_loop X ot cs e d = Inr d'"
  by (induction cs arbitrary: d) auto

text \<open>
  When the display names of the bound corrections are pairwise distinct and no
  correction raises, the entry is returned with the sum of the per-rule values as its
  correction.
\<close>

lemma process_entry_sum_distinct_names:
  assumes "distinct (map str (corrections self))"
    and "\<forall>c \<in> set (corrections self). \<exists>val. get_correction X oxide_type c (s a) = Inr val"
  shows "fst (process_entry X oxide_type self s a) = Inr (Some a)
         \<and> correction (snd (process_entry X oxide_type self s a) a)
             = sum_list (map (rule_value X oxide_type (s a)) (corrections self))"
proof -
  from dict_loop_returns [OF assms(2)] obtain d'
    where d': "dict_loop X oxide_type (corrections self) (s a) [] = Inr d'"
    by blast
  from dict_loop_sum [OF assms(1) _ d']
  have "sum_list (map snd d')
          = sum_list (map (rule_value X oxide_type (s a)) (corrections self))"
    by simp
  with d' show ?thesis by (simp add: process_entry_eq)
qed

lemma map_process_entry_distinct:
  assumes "distinct entries"
    and "\<forall>a \<in> set entries. s a = s0 a"
    and "map_process_entry X ot self s entries = (Inr rs, s')"
  shows "rs = map (\<lambda>a. if fst (process_entry X ot self s0 a) = Inr (Some a)
                        then Some a else None) entries
         \<and> (\<forall>a \<in> set entries. s' a = snd (process_entry X ot self s0 a) a)
         \<and> (\<forall>b. b \<notin> set entries \<longrightarrow> s' b = s b)"
  using assms
proof (induction entries arbitrary: s rs s')
  case Nil
  then show ?case by simp
next
  case (Cons a as)
  obtain r1 s1 where p: "process_entry X ot self s a = (r1, s1)"
    by (cases "process_entry X ot self s a")
  with Cons.prems(3) obtain r where r1: "r1 = Inr r"
    by (cases r1) auto
  obtain q s2 where m: "map_process_entry X ot self s1 as = (q, s2)"
    by (cases "map_process_entry X ot self s1 as")
  with Cons.prems(3) p r1 obtain rs'
    where q: "q = Inr rs'" and rs: "rs = r # rs'" and s2: "s' = s2"
    by (cases q) auto
  have s1_other: "\<And>b. b \<noteq> a \<Longrightarrow> s1 b = s b"
    using process_entry_other [of _ a X ot self s] p by simp
  have sa: "s a = s0 a" using Cons.prems(2) by simp
  have "\<forall>b \<in> set as. s1 b = s0 b"
  proof
    fix b assume b: "b \<in> set as"
    with Cons.prems(1) have "b \<noteq> a" by auto
    then have "s1 b = s b" by (rule s1_other)
    with b Cons.prems(2) show "s1 b = s0 b" by simp
  qed
  with Cons.IH [of s1 rs' s2] Cons.prems(1) m q
  have ih: "rs' = map (\<lambda>a. if fst (process_entry X ot self s0 a) = Inr (Some a)
                            then Some a else None) as"
    "\<forall>b \<in> set as. s2 b = snd (process_entry X ot self s0 b) b"
    "\<forall>b. b \<notin> set as \<longrightarrow> s2 b = s1 b"
    by simp_all
  have fst0: "fst (process_entry X ot self s0 a) = Inr r"
    using process_entry_frame(1) [of s a s0 X ot self] sa p r1 by simp
  have r: "r = (if fst (process_entry X ot self s0 a) = Inr (Some a) then Some a else None)"
    using process_entry_result [OF fst0] fst0 by auto
  have "s2 a = s1 a" using ih(3) Cons.prems(1) by simp
  also have "s1 a = snd (process_entry X ot self s0 a) a"
    using process_entry_frame(2) [of s a s0 X ot self] sa p by simp
  finally have s2a: "s2 a = snd (process_entry X ot self s0 a) a" .
  have "\<forall>b. b \<notin> set (a # as) \<longrightarrow> s2 b = s b"
    using ih(3) s1_other by simp
  with r ih(1,2) s2a rs s2 show ?case by simp
qed

text \<open>
  Only the aqueous correction reads the correction field of the entry, and it never
  raises: whether a rule raises, and with which error, does not depend on that field.
\<close>

lemma PotcarCorrection_correction_indep:
  "PotcarCorrection_get_correction pc (e\<lparr>correction := v\<rparr>)
     = PotcarCorrection_get_correction pc e"
  by (simp add: PotcarCorrection_get_correction_def cong: option.case_cong)

lemma GasCorrection_correction_indep:
  "GasCorrection_get_correction ot gc (e\<lparr>correction := v\<rparr>)
     = GasCorrection_get_correction ot gc e"
  by (simp add: GasCorrection_get_correction_def Let_def
      cong: option.case_cong prod.case_cong if_cong)

lemma UCorrection_correction_indep:
  "UCorrection_get_correction X uc (e\<lparr>correction := v\<rparr>) = UCorrection_get_correction X uc e"
  by (simp add: UCorrection_get_correction_def Let_def cong: option.case_cong if_cong)

lemma get_correction_raises_indep:
  "get_correction X ot c (e\<lparr>correction := v\<rparr>) = Inl err
     \<longleftrightarrow> get_correction X ot c e = Inl err"
  by (cases c)
    (simp_all add: PotcarCorrection_correction_indep GasCorrection_correction_indep
      UCorrection_correction_indep)

lemma dict_loop_raises_indep:
  "dict_loop X ot cs (e\<lparr>correction := v\<rparr>) d = Inl err \<longleftrightarrow> dict_loop X ot cs e d' = Inl err"
proof (induction cs arbitrary: d d')
  case Nil
  then show ?case by simp
next
  case (Cons c cs)
  show ?case
  proof (cases "get_correction X ot c e")
    case (Inl err')
    then have "get_correction X ot c (e\<lparr>correction := v\<rparr>) = Inl err'"
      by (simp add: get_correction_raises_indep)
    with Inl show ?thesis by simp
  next
    case (Inr val)
    obtain val' where v': "get_correction X ot c (e\<lparr>correction := v\<rparr>) = Inr val'"
      using Inr get_correction_raises_indep [of X ot c v e]
      by (cases "get_correction X ot c (e\<lparr>correction := v\<rparr>)") auto
    from Inr v' Cons.IH show ?thesis by simp
  qed
qed

lemma process_entry_fst_indep:
  assumes "s a = (s0 a)\<lparr>correction := v\<rparr>"
  shows "fst (process_entry X ot self s a) = fst (process_entry X ot self s0 a)"
proof (cases "dict_loop X ot (corrections self) (s0 a) []")
  case (Inl err)
  then have "dict_loop X ot (corrections self) (s a) [] = Inl err"
    using assms dict_loop_raises_indep [of X ot "corrections self" v "s0 a" "[]" err "[]"]
    by simp
  with Inl show ?thesis by (simp add: process_entry_eq)
next
  case (Inr d)
  have "\<exists>d'. dict_loop X ot (corrections self) (s a) [] = Inr d'"
  proof (cases "dict_loop X ot (corrections self) (s a) []")
    case (Inl err)
    then have "dict_loop X ot (corrections self) (s0 a) [] = Inl err"
      using assms dict_loop_raises_indep [of X ot "corrections self" v "s0 a" "[]" err "[]"]
      by simp
    with Inr show ?thesis by simp
  next
    case (Inr d')
    then show ?thesis by blast
  qed
  with Inr show ?thesis by (auto simp: process_entry_eq)
qed

lemma process_entry_fields:
  "\<exists>v. snd (process_entry X ot self s a) b = (s b)\<lparr>correction := v\<rparr>"
proof (cases "b = a")
  case True
  show ?thesis
  proof (cases "dict_loop X ot (corrections self) (s a) []")
    case (Inl err)
    then have "snd (process_entry X ot self s a) b = (s b)\<lparr>correction := correction (s b)\<rparr>"
      by (simp add: process_entry_eq)
    then show ?thesis by blast
  next
    case (Inr d)
    with True
    have "snd (process_entry X ot self s a) b = (s b)\<lparr>correction := sum_list (map snd d)\<rparr>"
      by (simp add: process_entry_eq)
    then show ?thesis by blast
  qed
next
  case False
  then have "snd (process_entry X ot self s a) b = (s b)\<lparr>correction := correction (s b)\<rparr>"
    by (simp add: process_entry_other)
  then show ?thesis by blast
qed

lemma map_process_entry_results:
  assumes "\<forall>a. \<exists>v. s a = (s0 a)\<lparr>correction := v\<rparr>"
    and "map_process_entry X ot self s entries = (Inr rs, s')"
  shows "rs = map (\<lambda>a. if fst (process_entry X ot self s0 a) = Inr (Some a)
                        then Some a else None) entries"
  using assms
proof (induction entries arbitrary: s rs s')
  case Nil
  then show ?case by simp
next
  case (Cons a as)
  obtain r1 s1 where p: "process_entry X ot self s a = (r1, s1)"
    by (cases "process_entry X ot self s a")
  with Cons.prems(2) obtain r where r1: "r1 = Inr r"
    by (cases r1) auto
  obtain q s2 where m: "map_process_entry X ot self s1 as = (q, s2)"
    by (cases "map_process_entry X ot self s1 as")
  with Cons.prems(2) p r1 obtain rs' where q: "q = Inr rs'" and rs: "rs = r # rs'"
    by (cases q) auto
  have inv: "\<forall>b. \<exists>v. s1 b = (s0 b)\<lparr>correction := v\<rparr>"
  proof
    fix b
    from Cons.prems(1) obtain v where v: "s b = (s0 b)\<lparr>correction := v\<rparr>" by blast
    from process_entry_fields [of X ot self s a b] p
    obtain w where "s1 b = (s b)\<lparr>correction := w\<rparr>" by auto
    with v have "s1 b = (s0 b)\<lparr>correction := w\<rparr>" by simp
    then show "\<exists>v. s1 b = (s0 b)\<lparr>correction := v\<rparr>" by blast
  qed
  from Cons.IH [OF inv] m q
  have ih: "rs' = map (\<lambda>a. if fst (process_entry X ot self s0 a) = Inr (Some a)
                            then Some a else None) as"
    by simp
  from Cons.prems(1) obtain v where "s a = (s0 a)\<lparr>correction := v\<rparr>" by blast
  then have "fst (process_entry X ot self s a) = fst (process_entry X ot self s0 a)"
    by (rule process_entry_fst_indep)
  with p r1 have fst0: "fst (process_entry X ot self s0 a) = Inr r" by simp
  have r: "r = (if fst (process_entry X ot self s0 a) = Inr (Some a) then Some a else None)"
    using process_entry_result [OF fst0] fst0 by auto
  from r ih rs show ?case by simp
qed

text \<open>
  For every sequence of entries, also one in which an entry occurs more than once, a
  result of \<^verbatim>\<open>process_entries\<close> is no longer than the input and is the subsequence of
  the entries that \<^verbatim>\<open>process_entry\<close> alone does not reject, in their order.
\<close>

lemma process_entries_length_order:
  assumes "process_entries X oxide_type self s entries = (Inr res, s')"
  shows "length res \<le> length entries
         \<and> res = filter (\<lambda>a. fst (process_entry X oxide_type self s a) = Inr (Some a)) entries"
proof -
  obtain q s2 where m: "map_process_entry X oxide_type self s entries = (q, s2)"
    by (cases "map_process_entry X oxide_type self s entries")
  with assms obtain rs where q: "q = Inr rs" and res: "res = filter_None rs"
    by (cases q) (auto simp: process_entries_def)
  have inv: "\<forall>a. \<exists>v. s a = (s a)\<lparr>correction := v\<rparr>"
  proof
    fix a
    have "s a = (s a)\<lparr>correction := correction (s a)\<rparr>" by simp
    then show "\<exists>v. s a = (s a)\<lparr>correction := v\<rparr>" by blast
  qed
  from map_process_entry_results [OF inv] m q
  have "rs = map (\<lambda>a. if fst (process_entry X oxide_type self s a) = Inr (Some a)
                       then Some a else None) entries"
    by simp
  with res
  have f: "res = filter (\<lambda>a. fst (process_entry X oxide_type self s a) = Inr (Some a)) entries"
    by (simp add: filter_None_map)
  then have "length res \<le> length entries" by simp
  with f show ?thesis by simp
qed

text \<open>
  For a sequence in which no entry occurs twice, the correction field of each surviving
  entry is moreover the one that \<^verbatim>\<open>process_entry\<close> alone gives it.
\<close>

lemma process_entries_distinct:
  assumes "distinct entries"
    and "process_entries X oxide_type self s entries = (Inr res, s')"
  shows "\<forall>a \<in> set res.
           correction (s' a) = correction (snd (process_entry X oxide_type self s a) a)"
proof -
  obtain q s2 where m: "map_process_entry X oxide_type self s entries = (q, s2)"
    by (cases "map_process_entry X oxide_type self s entries")
  with assms(2) obtain rs where q: "q = Inr rs" and s2: "s' = s2"
    by (cases q) (auto simp: process_entries_def)
  from map_process_entry_distinct [OF assms(1), of s s X oxide_type self rs s2] m q
  have st: "\<forall>a \<in> set entries. s2 a = snd (process_entry X oxide_type self s a) a"
    by simp
  from process_entries_length_order [OF assms(2)]
  have "set res \<subseteq> set entries" by auto
  with st s2 show ?thesis by auto
qed

lemma process_entries_distinct_example:
  "fst (process_entries X_table no_structure gas_u_aqueous three_entries [0, 1, 2]) = Inr [0, 2]
   \<and> correction (snd (process_entries X_table no_structure gas_u_aqueous three_entries
                          [0, 1, 2]) 0) = - 1.7
   \<and> correction (snd (process_entries X_table no_structure gas_u_aqueous three_entries
                          [0, 1, 2]) 1) = 0
   \<and> correction (snd (process_entries X_table no_structure gas_u_aqueous three_entries
                          [0, 1, 2]) 2) = - 1"
  by (simp add: process_entries_def process_entry_def get_corrections_dict_def
      gas_u_aqueous_def get_correction_call_def GasCorrection_get_correction_def add_rate_def
      gas_of_def oxide_rates_def water_def lithium_peroxide_def Fe2O3_HF_def
      three_entries_def mk_entry_def H2O_def Li2O2_def Fe2O3_def has_el_def amt_def
      elements_def common_peroxides_def common_superoxides_def ozonides_def
      AqueousCorrection_get_correction_def aqueous_MP_def AqueousCorrection_init_def
      config_MP_def GasCorrection_str_def AqueousCorrection_str_def UCorrection_str_def
      UCorrection_get_correction_def UCorrection_GGA_def get_dict_def get0_def
      no_parameters_def X_table_def)

subsection \<open>PotcarCorrection\<close>

text \<open>
  Claim C10. When the entry carries a \<^verbatim>\<open>"potcar_symbols"\<close> list in which some symbol has
  no space character, \<^verbatim>\<open>PotcarCorrection.get_correction\<close> raises IndexError, which is
  neither the incompatibility error nor the ValueError of the missing key: each symbol is
  split on a space and the second token is taken without a check.
\<close>

theorem potcar_unguarded_index_error:
  assumes "potcar_symbols (parameters e) = Some syms"
    and "sy \<in> set syms"
    and "CHR '' '' \<notin> set sy"
  shows "PotcarCorrection_get_correction pc e = Inl IndexError"
  using assms by (simp add: PotcarCorrection_get_correction_def second_tokens_no_space)

theorem potcar_unguarded_index_error_witness:
  "potcar_symbols (parameters potcar_no_space) = Some [''Fe_pv'']
   \<and> ''Fe_pv'' \<in> set [''Fe_pv'']
   \<and> CHR '' '' \<notin> set ''Fe_pv''
   \<and> PotcarCorrection_get_correction potcar_Fe potcar_no_space = Inl IndexError"
  using potcar_unguarded_index_error [of potcar_no_space "[''Fe_pv'']" "''Fe_pv''" potcar_Fe]
  by (simp add: potcar_no_space_def mk_entry_def)

text \<open>
  Claim C5, as stated, fails: for the entry whose only recorded symbol is \<^verbatim>\<open>'Fe_pv'\<close>
  the call neither returns 0 nor raises the incompatibility error nor raises the
  ValueError of the missing key, although the expected set contains \<^verbatim>\<open>'Fe_pv'\<close>.
\<close>

theorem potcar_cases_counterexample:
  "potcar_symbols (parameters potcar_no_space) = Some [''Fe_pv'']
   \<and> ''Fe_pv'' \<in> valid_potcars potcar_Fe
   \<and> PotcarCorrection_get_correction potcar_Fe potcar_no_space \<noteq> Inr 0
   \<and> PotcarCorrection_get_correction potcar_Fe potcar_no_space \<noteq> Inl CompatibilityError
   \<and> PotcarCorrection_get_correction potcar_Fe potcar_no_space \<noteq> Inl ValueError"
  by (simp add: PotcarCorrection_get_correction_def potcar_no_space_def mk_entry_def
      potcar_Fe_def PotcarCorrection_init_def)

text \<open>
  Claim C5, amended. Without the \<^verbatim>\<open>"potcar_symbols"\<close> key the call raises ValueError.
  With the key, and every recorded symbol containing a space, it returns 0 when the
  identifiers of the recorded symbols all belong to the expected set, and raises the
  incompatibility error when one of them does not.
\<close>

theorem potcar_cases:
  "(potcar_symbols (parameters e) = None \<longrightarrow>
      PotcarCorrection_get_correction pc e = Inl ValueError) \<and>
   (\<forall>syms. potcar_symbols (parameters e) = Some syms \<and> (\<forall>sy \<in> set syms. CHR '' '' \<in> set sy) \<longrightarrow>
      PotcarCorrection_get_correction pc e =
        (if psp_setting ` set syms \<subseteq> valid_potcars pc then Inr 0 else Inl CompatibilityError))"
  by (auto simp: PotcarCorrection_get_correction_def second_tokens_spaces)

theorem potcar_cases_witness:
  "PotcarCorrection_get_correction potcar_Fe (mk_entry Fe2O3 (- 10) 0 no_parameters Map.empty)
     = Inl ValueError
   \<and> PotcarCorrection_get_correction potcar_Fe potcar_good = Inr 0
   \<and> PotcarCorrection_get_correction
        (PotcarCorrection_init \<lparr>potcar_settings = [(''Fe'', ''Fe'')], LDAUU = Map.empty,
                                 input_set_name = ''MIT''\<rparr>) potcar_good
     = Inl CompatibilityError"
proof -
  let ?none = "mk_entry Fe2O3 (- 10) 0 no_parameters Map.empty"
  let ?syms = "[''PAW_PBE Fe_pv 06Sep2000'', ''PAW_PBE O 08Apr2002'']"
  let ?other = "PotcarCorrection_init \<lparr>potcar_settings = [(''Fe'', ''Fe'')], LDAUU = Map.empty,
                                         input_set_name = ''MIT''\<rparr>"
  have syms: "potcar_symbols (parameters potcar_good) = Some ?syms"
    by (simp add: potcar_good_def mk_entry_def)
  have spaces: "\<forall>sy \<in> set ?syms. CHR '' '' \<in> set sy"
    by simp
  have ids: "psp_setting ''PAW_PBE Fe_pv 06Sep2000'' = ''Fe_pv''"
    "psp_setting ''PAW_PBE O 08Apr2002'' = ''O''"
    by (simp_all add: psp_setting_def)
  have "PotcarCorrection_get_correction potcar_Fe ?none = Inl ValueError"
    using potcar_cases [of ?none potcar_Fe] by (simp add: mk_entry_def no_parameters_def)
  moreover have "PotcarCorrection_get_correction potcar_Fe potcar_good = Inr 0"
    using potcar_cases [of potcar_good potcar_Fe] syms spaces ids
    by (simp add: potcar_Fe_def PotcarCorrection_init_def)
  moreover have "PotcarCorrection_get_correction ?other potcar_good = Inl CompatibilityError"
    using potcar_cases [of potcar_good ?other] syms spaces ids
    by (simp add: PotcarCorrection_init_def)
  ultimately show ?thesis by simp
qed

subsection \<open>GasCorrection\<close>

text \<open>
  Claim C4, as stated, fails for two oxide-correction tables. With a table that has a
  \<^verbatim>\<open>"hydroxide"\<close> rate, the entry classified \<^verbatim>\<open>"hydroxide"\<close> receives that rate and
  the \<^verbatim>\<open>"oxide"\<close> rate, both times the oxygen count. With a table that has no
  \<^verbatim>\<open>"oxide"\<close> rate the call raises KeyError.
\<close>

theorem gas_hydroxide_counterexample:
  "GasCorrection_get_correction no_structure
     (gas_of [''oxide'' \<mapsto> - 0.7, ''hydroxide'' \<mapsto> - 0.2] True) hydroxide_entry = Inr (- 0.9)
   \<and> Inr (- 0.9) \<noteq> (Inr (- 0.7 * amt (composition hydroxide_entry) ''O'') :: error + real)
   \<and> GasCorrection_get_correction no_structure (gas_of Map.empty True) hydroxide_entry
       = Inl KeyError"
  by (simp add: GasCorrection_get_correction_def add_rate_def gas_of_def hydroxide_entry_def
      mk_entry_def NaOH_def has_el_def amt_def)

text \<open>
  Claim C4, amended. For an entry whose reduced formula is not in the compound-energy
  table, whose composition has oxygen and another element and whose data classify it as
  \<^verbatim>\<open>"hydroxide"\<close>, a gas correction with the peroxide correction enabled returns the
  \<^verbatim>\<open>"oxide"\<close> rate times the oxygen count, for every table that has an \<^verbatim>\<open>"oxide"\<close> rate
  and no \<^verbatim>\<open>"hydroxide"\<close> rate.
\<close>

theorem gas_hydroxide:
  assumes "cpd_energies gc (reduced_formula (composition e)) = None"
    and "correct_peroxide gc"
    and "has_el (composition e) ''O''"
    and "has_el (composition e) el" and "el \<noteq> ''O''"
    and "data e ''oxide_type'' = Some ''hydroxide''"
    and "oxide_correction gc ''oxide'' = Some rate"
    and "oxide_correction gc ''hydroxide'' = None"
  shows "GasCorrection_get_correction oxide_type gc e = Inr (rate * amt (composition e) ''O'')"
proof -
  have "2 \<le> length (elements (composition e))"
    using assms(3,4,5) two_elements [of "''O''" "elements (composition e)" el]
    by (simp add: has_el_elements)
  then have "2 \<le> length (amounts (composition e))"
    by (simp add: elements_def)
  with assms show ?thesis
    by (simp add: GasCorrection_get_correction_def add_rate_def)
qed

theorem gas_hydroxide_witness:
  "GasCorrection_get_correction no_structure (gas_of [''oxide'' \<mapsto> - 0.7] True) hydroxide_entry
     = Inr (- 0.7 * 1)"
  using gas_hydroxide [of "gas_of [''oxide'' \<mapsto> - 0.7] True" hydroxide_entry "''Na''" "- 0.7"
      no_structure]
  by (simp add: gas_of_def hydroxide_entry_def mk_entry_def NaOH_def has_el_def amt_def)

text \<open>
  Claim C7, as stated, fails when the peroxide correction is disabled and the
  oxide-correction table has no \<^verbatim>\<open>"oxide"\<close> rate: the call raises KeyError on an entry of
  pure iron.
\<close>

theorem gas_no_oxygen_counterexample:
  "cpd_energies (gas_of Map.empty False) (reduced_formula (composition iron_entry)) = None
   \<and> \<not> has_el (composition iron_entry) ''O''
   \<and> GasCorrection_get_correction no_structure (gas_of Map.empty False) iron_entry
       = Inl KeyError"
  by (simp add: GasCorrection_get_correction_def add_rate_def gas_of_def iron_entry_def
      mk_entry_def Fe_def has_el_def)

text \<open>
  Claim C7, amended. For an entry whose reduced formula is not in the compound-energy
  table and whose composition has no oxygen, the gas correction returns 0 when the
  peroxide correction is enabled, and also when it is disabled and the oxide-correction
  table has an \<^verbatim>\<open>"oxide"\<close> rate.
\<close>

theorem gas_no_oxygen:
  assumes "cpd_energies gc (reduced_formula (composition e)) = None"
    and "\<not> has_el (composition e) ''O''"
  shows "(correct_peroxide gc \<longrightarrow> GasCorrection_get_correction oxide_type gc e = Inr 0) \<and>
         (\<not> correct_peroxide gc \<and> oxide_correction gc ''oxide'' \<noteq> None \<longrightarrow>
            GasCorrection_get_correction oxide_type gc e = Inr 0)"
  using assms by (auto simp: GasCorrection_get_correction_def add_rate_def not_has_el_amt)

theorem gas_no_oxygen_witness:
  "GasCorrection_get_correction no_structure (gas_of [''oxide'' \<mapsto> - 0.7] True) iron_entry = Inr 0
   \<and> GasCorrection_get_correction no_structure (gas_of [''oxide'' \<mapsto> - 0.7] False) iron_entry
       = Inr 0"
  using gas_no_oxygen [of "gas_of [''oxide'' \<mapsto> - 0.7] True" iron_entry no_structure]
    gas_no_oxygen [of "gas_of [''oxide'' \<mapsto> - 0.7] False" iron_entry no_structure]
  by (simp add: gas_of_def iron_entry_def mk_entry_def Fe_def has_el_def)

subsection \<open>AqueousCorrection\<close>

text \<open>
  Claim C8. For an entry whose reduced formula is H2O the aqueous correction is the
  reference part alone: the hydration term is not added. For every other reduced formula
  it is the reference part plus \<open>0.5 * 2.46 * min (H / 2) O\<close>, with the amounts of
  hydrogen and oxygen in the composition.
\<close>

theorem aqueous_hydration_term:
  "(reduced_formula (composition e) = ''H2O'' \<longrightarrow>
      AqueousCorrection_get_correction ac e = aqueous_reference_term ac e) \<and>
   (reduced_formula (composition e) \<noteq> ''H2O'' \<longrightarrow>
      AqueousCorrection_get_correction ac e =
        aqueous_reference_term ac e
        + 0.5 * 2.46 * min (amt (composition e) ''H'' / 2) (amt (composition e) ''O''))"
  by (auto simp: AqueousCorrection_get_correction_def aqueous_reference_term_def Let_def
      split: option.splits)

theorem aqueous_hydration_term_witness:
  "AqueousCorrection_get_correction aqueous_MP water = - 1
   \<and> AqueousCorrection_get_correction aqueous_MP hydroxide_entry = 0.5 * 2.46 * (1 / 2)"
  using aqueous_hydration_term [of water aqueous_MP]
    aqueous_hydration_term [of hydroxide_entry aqueous_MP]
  by (simp add: aqueous_reference_term_def aqueous_MP_def AqueousCorrection_init_def
      config_MP_def water_def hydroxide_entry_def mk_entry_def H2O_def NaOH_def amt_def)

subsection \<open>UCorrection\<close>

text \<open>
  Claim C1, as stated, fails. The correction constructed in "GGA" mode raises the
  incompatibility error on an Fe2O3 entry of run type GGA that declares a U of 5.3 on
  Fe, and it raises IndexError on an entry whose composition has no element.
\<close>

theorem ucorrection_GGA_counterexample:
  "UCorrection_init config_MP input_set_MP ''GGA'' = Inr UCorrection_GGA
   \<and> run_type (parameters Fe2O3_plus_U) \<noteq> Some ''HF''
   \<and> UCorrection_get_correction X_table UCorrection_GGA Fe2O3_plus_U = Inl CompatibilityError
   \<and> run_type (parameters empty_entry) \<noteq> Some ''HF''
   \<and> UCorrection_get_correction X_table UCorrection_GGA empty_entry = Inl IndexError"
  by (simp add: UCorrection_init_def config_MP_def UCorrection_GGA_def
      UCorrection_get_correction_def Fe2O3_plus_U_def empty_entry_def mk_entry_def Fe2O3_def
      elements_def amt_def get_dict_def get0_def no_parameters_def)

text \<open>
  Claim C1, amended. A correction constructed in "GGA" mode raises the incompatibility
  error on every entry whose declared run type is HF. On an entry of another run type
  whose composition has an element of positive amount, it returns 0 when the entry
  declares no nonzero U for an element of its composition, and raises the
  incompatibility error when it declares one.
\<close>

theorem ucorrection_GGA:
  assumes "UCorrection_init c iset ''GGA'' = Inr uc"
  shows "(run_type (parameters e) = Some ''HF'' \<longrightarrow>
            UCorrection_get_correction X uc e = Inl CompatibilityError) \<and>
         (run_type (parameters e) \<noteq> Some ''HF''
            \<and> (\<exists>el \<in> set (elements (composition e)). amt (composition e) el > 0) \<longrightarrow>
            UCorrection_get_correction X uc e =
              (if \<forall>el \<in> set (elements (composition e)). declared_u e el = 0 then Inr 0
               else Inl CompatibilityError))"
proof -
  from assms have uc: "u_settings uc = Map.empty" "u_corrections uc = Map.empty"
    by (auto simp: UCorrection_init_def)
  have du: "\<And>el. get0 (case hubbards (parameters e) of None \<Rightarrow> Map.empty | Some h \<Rightarrow> h) el
                  = declared_u e el"
    by (simp add: get0_def declared_u_def split: option.splits)
  show ?thesis
  proof (intro conjI impI)
    assume "run_type (parameters e) = Some ''HF''"
    then show "UCorrection_get_correction X uc e = Inl CompatibilityError"
      by (simp add: UCorrection_get_correction_def)
  next
    assume a: "run_type (parameters e) \<noteq> Some ''HF''
            \<and> (\<exists>el \<in> set (elements (composition e)). amt (composition e) el > 0)"
    then have rt: "(case run_type (parameters e) of None \<Rightarrow> ''GGA'' | Some rt \<Rightarrow> rt) \<noteq> ''HF''"
      by (auto split: option.splits)
    from a have "filter (\<lambda>el. amt (composition e) el > 0) (elements (composition e)) \<noteq> []"
      by (simp add: filter_empty_conv)
    then have ne: "sort_key X (filter (\<lambda>el. amt (composition e) el > 0)
                                 (elements (composition e))) \<noteq> []"
      by (simp add: sort_key_Nil_iff)
    show "UCorrection_get_correction X uc e =
              (if \<forall>el \<in> set (elements (composition e)). declared_u e el = 0 then Inr 0
               else Inl CompatibilityError)"
      using rt ne
      by (simp add: UCorrection_get_correction_def Let_def uc get_dict_def u_loop_GGA du)
  qed
qed

theorem ucorrection_GGA_witness:
  "UCorrection_init config_MP input_set_MP ''GGA'' = Inr UCorrection_GGA
   \<and> UCorrection_get_correction X_table UCorrection_GGA Fe2O3_HF = Inl CompatibilityError
   \<and> UCorrection_get_correction X_table UCorrection_GGA Fe2O3_GGA = Inr 0
   \<and> UCorrection_get_correction X_table UCorrection_GGA Fe2O3_plus_U = Inl CompatibilityError"
proof -
  have init: "UCorrection_init config_MP input_set_MP ''GGA'' = Inr UCorrection_GGA"
    by (simp add: UCorrection_init_def config_MP_def UCorrection_GGA_def)
  have "UCorrection_get_correction X_table UCorrection_GGA Fe2O3_HF = Inl CompatibilityError"
    using ucorrection_GGA [OF init, of Fe2O3_HF X_table]
    by (simp add: Fe2O3_HF_def mk_entry_def)
  moreover have "UCorrection_get_correction X_table UCorrection_GGA Fe2O3_GGA = Inr 0"
    using ucorrection_GGA [OF init, of Fe2O3_GGA X_table]
    by (simp add: Fe2O3_GGA_def mk_entry_def no_parameters_def Fe2O3_def elements_def amt_def
        declared_u_def)
  moreover have "UCorrection_get_correction X_table UCorrection_GGA Fe2O3_plus_U
                   = Inl CompatibilityError"
    using ucorrection_GGA [OF init, of Fe2O3_plus_U X_table]
    by (simp add: Fe2O3_plus_U_def mk_entry_def Fe2O3_def elements_def amt_def declared_u_def)
  ultimately show ?thesis using init by simp
qed

subsection \<open>Compatibility\<close>

text \<open>
  Claim C9. A call of \<^verbatim>\<open>get_corrections_dict\<close> leaves the store as it was, so a second
  call in succession returns the same mapping (or raises the same error) as the first.
\<close>

theorem get_corrections_dict_twice:
  assumes "get_corrections_dict X oxide_type self s a = (r, s')"
  shows "s' = s \<and> get_corrections_dict X oxide_type self s' a = (r, s')"
  using assms by (auto simp: get_corrections_dict_def corrections_loop_eq)

theorem get_corrections_dict_twice_witness:
  "get_corrections_dict X_table no_structure gas_aqueous (\<lambda>a. water) 0
     = (Inr [(''MP Gas Correction'', - 0.7), (''MP Aqueous Correction'', - 1)], (\<lambda>a. water))
   \<and> get_corrections_dict X_table no_structure gas_aqueous
        (snd (get_corrections_dict X_table no_structure gas_aqueous (\<lambda>a. water) 0)) 0
     = (Inr [(''MP Gas Correction'', - 0.7), (''MP Aqueous Correction'', - 1)], (\<lambda>a. water))"
proof -
  have h: "get_corrections_dict X_table no_structure gas_aqueous (\<lambda>a. water) 0
     = (Inr [(''MP Gas Correction'', - 0.7), (''MP Aqueous Correction'', - 1)], (\<lambda>a. water))"
    by (simp add: get_corrections_dict_def gas_aqueous_def get_correction_call_def
        GasCorrection_get_correction_def add_rate_def gas_of_def oxide_rates_def water_def
        mk_entry_def H2O_def has_el_def amt_def elements_def common_peroxides_def
        common_superoxides_def ozonides_def AqueousCorrection_get_correction_def aqueous_MP_def
        AqueousCorrection_init_def config_MP_def GasCorrection_str_def AqueousCorrection_str_def)
  from get_corrections_dict_twice [OF h] h show ?thesis by simp
qed

text \<open>
  Claim C2 is not met by the code. A fresh water entry (correction field 0) is
  processed by a scheme of a gas correction followed by the aqueous correction. The gas
  correction contributes - 0.7; the aqueous correction computes - 1, which is reference
  energy times atom count minus uncorrected energy minus the stored correction field 0,
  and not the value net of the - 0.7 that the earlier rule has computed in the same call.
\<close>

theorem aqueous_ignores_prior_rules:
  "correction water = 0
   \<and> get_correction X_table no_structure (Gas (gas_of oxide_rates True)) water = Inr (- 0.7)
   \<and> get_correction X_table no_structure (Aqueous aqueous_MP) water = Inr (- 1)
   \<and> fst (get_corrections_dict X_table no_structure gas_aqueous (\<lambda>a. water) 0)
       = Inr [(''MP Gas Correction'', - 0.7), (''MP Aqueous Correction'', - 1)]
   \<and> aq_cpd_energies aqueous_MP ''H2O'' = Some (- 5)
   \<and> (- 1 :: real) \<noteq> - 5 * num_atoms (composition water) - uncorrected_energy water - (- 0.7)"
  by (simp add: get_corrections_dict_def gas_aqueous_def get_correction_call_def
      GasCorrection_get_correction_def add_rate_def gas_of_def oxide_rates_def water_def
      mk_entry_def H2O_def has_el_def amt_def elements_def common_peroxides_def
      common_superoxides_def ozonides_def AqueousCorrection_get_correction_def aqueous_MP_def
      AqueousCorrection_init_def config_MP_def GasCorrection_str_def AqueousCorrection_str_def)

text \<open>
  Claim C3 is not met by the code. Two gas corrections with the same display name are
  bound, one with the peroxide correction and one without. On a lithium peroxide entry
  neither raises; they return - 1 and - 1.4. The entry is returned with the correction
  - 1.4, the value of the second rule, and not with the sum - 2.4.
\<close>

theorem process_entry_same_name:
  "get_correction X_table no_structure (Gas (gas_of oxide_rates True)) lithium_peroxide
     = Inr (- 1)
   \<and> get_correction X_table no_structure (Gas (gas_of oxide_rates False)) lithium_peroxide
       = Inr (- 1.4)
   \<and> fst (process_entry X_table no_structure gas_twice (\<lambda>a. lithium_peroxide) 0) = Inr (Some 0)
   \<and> correction (snd (process_entry X_table no_structure gas_twice (\<lambda>a. lithium_peroxide) 0) 0)
       = - 1.4"
  by (simp add: process_entry_def get_corrections_dict_def gas_twice_def
      get_correction_call_def GasCorrection_get_correction_def add_rate_def gas_of_def
      oxide_rates_def lithium_peroxide_def mk_entry_def Li2O2_def has_el_def amt_def
      elements_def common_peroxides_def common_superoxides_def ozonides_def
      GasCorrection_str_def)

text \<open>
  Claim C6 is not met by the code. The water entry at address 0 occurs twice in the
  sequence, under the scheme of a gas correction followed by the aqueous correction. Both
  occurrences survive, in order, but the correction field of the entry is 0 at the end,
  whereas \<^verbatim>\<open>process_entry\<close> alone gives it - 1.7: the second call runs on the field
  that the first call wrote, which the aqueous correction subtracts.
\<close>

theorem process_entries_repeated_entry:
  "fst (process_entries X_table no_structure gas_aqueous (\<lambda>a. water) [0, 0]) = Inr [0, 0]
   \<and> correction (snd (process_entries X_table no_structure gas_aqueous (\<lambda>a. water) [0, 0]) 0)
       = 0
   \<and> fst (process_entry X_table no_structure gas_aqueous (\<lambda>a. water) 0) = Inr (Some 0)
   \<and> correction (snd (process_entry X_table no_structure gas_aqueous (\<lambda>a. water) 0) 0)
       = - 1.7"
  by (simp add: process_entries_def process_entry_def get_corrections_dict_def gas_aqueous_def
      get_correction_call_def GasCorrection_get_correction_def add_rate_def gas_of_def
      oxide_rates_def water_def mk_entry_def H2O_def has_el_def amt_def elements_def
      common_peroxides_def common_superoxides_def ozonides_def
      AqueousCorrection_get_correction_def aqueous_MP_def AqueousCorrection_init_def
      config_MP_def GasCorrection_str_def AqueousCorrection_str_def)

end
